theory Spec2Isabelle
  imports Main "HOL-Library.Word" "HOL-Library.Sublist"
begin

unbundle bit_operations_syntax

section \<open>The generated QtGui binding header\<close>

text \<open>
  \<^verbatim>\<open>pyside2_qtgui_python.h\<close> defines one integer macro per exported type (the block
  headed "Type indices") and one per exported converter (the block headed "Converter
  indices"). Each block is closed by a count macro. The two tables below list the macros in
  the order of the header, with the values the header gives them.
\<close>

definition SBK_QtGui_IDX_COUNT :: int where
  "SBK_QtGui_IDX_COUNT = 295"

definition SBK_QtGui_CONVERTERS_IDX_COUNT :: int where
  "SBK_QtGui_CONVERTERS_IDX_COUNT = 46"

definition type_indices :: "(string \<times> int) list" where
  "type_indices = [
   (''SBK_QMATRIX4X3_IDX'', 113), (''SBK_QMATRIX4X2_IDX'', 112),
   (''SBK_QMATRIX3X4_IDX'', 111), (''SBK_QMATRIX3X3_IDX'', 110),
   (''SBK_QMATRIX3X2_IDX'', 109), (''SBK_QMATRIX2X4_IDX'', 108),
   (''SBK_QMATRIX2X3_IDX'', 107), (''SBK_QMATRIX2X2_IDX'', 106),
   (''SBK_QDESKTOPSERVICES_IDX'', 27), (''SBK_QTEXTTABLECELL_IDX'', 270),
   (''SBK_QTEXTFRAGMENT_IDX'', 241), (''SBK_QTEXTBLOCK_IDX'', 216),
   (''SBK_QTEXTBLOCK_ITERATOR_IDX'', 217), (''SBK_QTEXTBLOCKUSERDATA_IDX'', 220),
   (''SBK_QTEXTOBJECTINTERFACE_IDX'', 263), (''SBK_QTEXTLINE_IDX'', 256),
   (''SBK_QTEXTLINE_EDGE_IDX'', 258), (''SBK_QTEXTLINE_CURSORPOSITION_IDX'', 257),
   (''SBK_QTEXTINLINEOBJECT_IDX'', 248), (''SBK_QTEXTCURSOR_IDX'', 225),
   (''SBK_QTEXTCURSOR_MOVEMODE_IDX'', 226), (''SBK_QTEXTCURSOR_MOVEOPERATION_IDX'', 227),
   (''SBK_QTEXTCURSOR_SELECTIONTYPE_IDX'', 228), (''SBK_QFONTDATABASE_IDX'', 62),
   (''SBK_QFONTDATABASE_WRITINGSYSTEM_IDX'', 64), (''SBK_QFONTDATABASE_SYSTEMFONT_IDX'', 63),
   (''SBK_QTEXTFORMAT_IDX'', 236), (''SBK_QTEXTFORMAT_FORMATTYPE_IDX'', 237),
   (''SBK_QTEXTFORMAT_PROPERTY_IDX'', 240), (''SBK_QTEXTFORMAT_OBJECTTYPES_IDX'', 238),
   (''SBK_QTEXTFORMAT_PAGEBREAKFLAG_IDX'', 239), (''SBK_QFLAGS_QTEXTFORMAT_PAGEBREAKFLAG__IDX'', 48),
   (''SBK_QTEXTLISTFORMAT_IDX'', 260), (''SBK_QTEXTLISTFORMAT_STYLE_IDX'', 261),
   (''SBK_QTEXTBLOCKFORMAT_IDX'', 218), (''SBK_QTEXTBLOCKFORMAT_LINEHEIGHTTYPES_IDX'', 294),
   (''SBK_QTEXTFRAMEFORMAT_IDX'', 244), (''SBK_QTEXTFRAMEFORMAT_POSITION_IDX'', 246),
   (''SBK_QTEXTFRAMEFORMAT_BORDERSTYLE_IDX'', 245), (''SBK_QTEXTTABLEFORMAT_IDX'', 272),
   (''SBK_QTEXTLENGTH_IDX'', 254), (''SBK_QTEXTLENGTH_TYPE_IDX'', 255),
   (''SBK_QPAINTENGINESTATE_IDX'', 150), (''SBK_QPAINTENGINE_IDX'', 145),
   (''SBK_QPAINTENGINE_PAINTENGINEFEATURE_IDX'', 147), (''SBK_QFLAGS_QPAINTENGINE_PAINTENGINEFEATURE__IDX'', 42),
   (''SBK_QPAINTENGINE_DIRTYFLAG_IDX'', 146), (''SBK_QFLAGS_QPAINTENGINE_DIRTYFLAG__IDX'', 41),
   (''SBK_QPAINTENGINE_POLYGONDRAWMODE_IDX'', 148), (''SBK_QPAINTENGINE_TYPE_IDX'', 149),
   (''SBK_QTEXTITEM_IDX'', 249), (''SBK_QTEXTITEM_RENDERFLAG_IDX'', 250),
   (''SBK_QFLAGS_QTEXTITEM_RENDERFLAG__IDX'', 49), (''SBK_QFONTMETRICSF_IDX'', 67),
   (''SBK_QFONTMETRICS_IDX'', 66), (''SBK_QFONTINFO_IDX'', 65),
   (''SBK_QPEN_IDX'', 165), (''SBK_QTEXTOPTION_IDX'', 264),
   (''SBK_QTEXTOPTION_TABTYPE_IDX'', 267), (''SBK_QTEXTOPTION_WRAPMODE_IDX'', 268),
   (''SBK_QTEXTOPTION_FLAG_IDX'', 265), (''SBK_QFLAGS_QTEXTOPTION_FLAG__IDX'', 50),
   (''SBK_QTEXTOPTION_TAB_IDX'', 266), (''SBK_QPAGESIZE_IDX'', 135),
   (''SBK_QPAGESIZE_PAGESIZEID_IDX'', 136), (''SBK_QPAGESIZE_UNIT_IDX'', 138),
   (''SBK_QPAGESIZE_SIZEMATCHPOLICY_IDX'', 137), (''SBK_QOPENGLFRAMEBUFFEROBJECT_IDX'', 127),
   (''SBK_QOPENGLFRAMEBUFFEROBJECT_ATTACHMENT_IDX'', 128), (''SBK_QOPENGLBUFFER_IDX'', 120),
   (''SBK_QOPENGLBUFFER_TYPE_IDX'', 123), (''SBK_QOPENGLBUFFER_USAGEPATTERN_IDX'', 124),
   (''SBK_QOPENGLBUFFER_ACCESS_IDX'', 121), (''SBK_QOPENGLBUFFER_RANGEACCESSFLAG_IDX'', 122),
   (''SBK_QFLAGS_QOPENGLBUFFER_RANGEACCESSFLAG__IDX'', 39), (''SBK_QMATRIX4X4_IDX'', 114),
   (''SBK_QQUATERNION_IDX'', 182), (''SBK_QVECTOR4D_IDX'', 286),
   (''SBK_QVECTOR3D_IDX'', 285), (''SBK_QPALETTE_IDX'', 161),
   (''SBK_QPALETTE_COLORGROUP_IDX'', 162), (''SBK_QPALETTE_COLORROLE_IDX'', 163),
   (''SBK_QSURFACE_IDX'', 204), (''SBK_QSURFACE_SURFACECLASS_IDX'', 205),
   (''SBK_QSURFACE_SURFACETYPE_IDX'', 206), (''SBK_QSURFACEFORMAT_IDX'', 207),
   (''SBK_QSURFACEFORMAT_FORMATOPTION_IDX'', 208), (''SBK_QFLAGS_QSURFACEFORMAT_FORMATOPTION__IDX'', 46),
   (''SBK_QSURFACEFORMAT_SWAPBEHAVIOR_IDX'', 211), (''SBK_QSURFACEFORMAT_RENDERABLETYPE_IDX'', 210),
   (''SBK_QSURFACEFORMAT_OPENGLCONTEXTPROFILE_IDX'', 209), (''SBK_QCURSOR_IDX'', 26),
   (''SBK_QSTANDARDITEM_IDX'', 197), (''SBK_QSTANDARDITEM_ITEMTYPE_IDX'', 198),
   (''SBK_QFONT_IDX'', 54), (''SBK_QFONT_STYLEHINT_IDX'', 59),
   (''SBK_QFONT_STYLESTRATEGY_IDX'', 60), (''SBK_QFONT_HINTINGPREFERENCE_IDX'', 293),
   (''SBK_QFONT_WEIGHT_IDX'', 61), (''SBK_QFONT_STYLE_IDX'', 58),
   (''SBK_QFONT_STRETCH_IDX'', 57), (''SBK_QFONT_CAPITALIZATION_IDX'', 55),
   (''SBK_QFONT_SPACINGTYPE_IDX'', 56), (''SBK_QTEXTCHARFORMAT_IDX'', 221),
   (''SBK_QTEXTCHARFORMAT_VERTICALALIGNMENT_IDX'', 224), (''SBK_QTEXTCHARFORMAT_UNDERLINESTYLE_IDX'', 223),
   (''SBK_QTEXTCHARFORMAT_FONTPROPERTIESINHERITANCEBEHAVIOR_IDX'', 222), (''SBK_QTEXTTABLECELLFORMAT_IDX'', 271),
   (''SBK_QTEXTIMAGEFORMAT_IDX'', 247), (''SBK_QGRADIENT_IDX'', 68),
   (''SBK_QGRADIENT_TYPE_IDX'', 72), (''SBK_QGRADIENT_SPREAD_IDX'', 71),
   (''SBK_QGRADIENT_COORDINATEMODE_IDX'', 69), (''SBK_QGRADIENT_INTERPOLATIONMODE_IDX'', 70),
   (''SBK_QCONICALGRADIENT_IDX'', 23), (''SBK_QRADIALGRADIENT_IDX'', 183),
   (''SBK_QLINEARGRADIENT_IDX'', 104), (''SBK_QBRUSH_IDX'', 16),
   (''SBK_QPIXMAPCACHE_IDX'', 177), (''SBK_QPIXMAPCACHE_KEY_IDX'', 178),
   (''SBK_QPICTUREIO_IDX'', 167), (''SBK_QIMAGEIOHANDLER_IDX'', 87),
   (''SBK_QIMAGEIOHANDLER_IMAGEOPTION_IDX'', 88), (''SBK_QIMAGEIOHANDLER_TRANSFORMATION_IDX'', 89),
   (''SBK_QFLAGS_QIMAGEIOHANDLER_TRANSFORMATION__IDX'', 38), (''SBK_QTRANSFORM_IDX'', 280),
   (''SBK_QTRANSFORM_TRANSFORMATIONTYPE_IDX'', 281), (''SBK_QSTATICTEXT_IDX'', 200),
   (''SBK_QSTATICTEXT_PERFORMANCEHINT_IDX'', 201), (''SBK_QRAWFONT_IDX'', 185),
   (''SBK_QRAWFONT_ANTIALIASINGTYPE_IDX'', 186), (''SBK_QRAWFONT_LAYOUTFLAG_IDX'', 187),
   (''SBK_QFLAGS_QRAWFONT_LAYOUTFLAG__IDX'', 45), (''SBK_QPAINTERPATHSTROKER_IDX'', 160),
   (''SBK_QMATRIX_IDX'', 105), (''SBK_QPAINTERPATH_IDX'', 157),
   (''SBK_QPAINTERPATH_ELEMENTTYPE_IDX'', 159), (''SBK_QPAINTERPATH_ELEMENT_IDX'', 158),
   (''SBK_QPOLYGONF_IDX'', 180), (''SBK_QVECTOR_QPOINTF_IDX'', 180),
   (''SBK_QPOLYGON_IDX'', 179), (''SBK_QVECTOR_QPOINT_IDX'', 179),
   (''SBK_QPIXELFORMAT_IDX'', 168), (''SBK_QPIXELFORMAT_COLORMODEL_IDX'', 173),
   (''SBK_QPIXELFORMAT_ALPHAUSAGE_IDX'', 171), (''SBK_QPIXELFORMAT_ALPHAPOSITION_IDX'', 169),
   (''SBK_QPIXELFORMAT_ALPHAPREMULTIPLIED_IDX'', 170), (''SBK_QPIXELFORMAT_TYPEINTERPRETATION_IDX'', 174),
   (''SBK_QPIXELFORMAT_YUVLAYOUT_IDX'', 175), (''SBK_QPIXELFORMAT_BYTEORDER_IDX'', 172),
   (''SBK_QPAINTDEVICE_IDX'', 142), (''SBK_QPAINTDEVICE_PAINTDEVICEMETRIC_IDX'', 143),
   (''SBK_QPAGEDPAINTDEVICE_IDX'', 139), (''SBK_QPAGEDPAINTDEVICE_PAGESIZE_IDX'', 141),
   (''SBK_QPAGEDPAINTDEVICE_MARGINS_IDX'', 140), (''SBK_QPICTURE_IDX'', 166),
   (''SBK_QACCESSIBLEEVENT_IDX'', 11), (''SBK_QACCESSIBLEINTERFACE_IDX'', 12),
   (''SBK_QACCESSIBLE_IDX'', 3), (''SBK_QACCESSIBLE_EVENT_IDX'', 4),
   (''SBK_QACCESSIBLE_ROLE_IDX'', 7), (''SBK_QACCESSIBLE_TEXT_IDX'', 9),
   (''SBK_QACCESSIBLE_RELATIONFLAG_IDX'', 6), (''SBK_QACCESSIBLE_INTERFACETYPE_IDX'', 5),
   (''SBK_QACCESSIBLE_TEXTBOUNDARYTYPE_IDX'', 10), (''SBK_QACCESSIBLE_STATE_IDX'', 8),
   (''SBK_QTOUCHDEVICE_IDX'', 274), (''SBK_QTOUCHDEVICE_DEVICETYPE_IDX'', 276),
   (''SBK_QTOUCHDEVICE_CAPABILITYFLAG_IDX'', 275), (''SBK_QFLAGS_QTOUCHDEVICE_CAPABILITYFLAG__IDX'', 51),
   (''SBK_QVECTOR2D_IDX'', 284), (''SBK_QKEYSEQUENCE_IDX'', 100),
   (''SBK_QKEYSEQUENCE_STANDARDKEY_IDX'', 103), (''SBK_QKEYSEQUENCE_SEQUENCEFORMAT_IDX'', 101),
   (''SBK_QKEYSEQUENCE_SEQUENCEMATCH_IDX'', 102), (''SBK_QCOLOR_IDX'', 20),
   (''SBK_QCOLOR_SPEC_IDX'', 22), (''SBK_QCOLOR_NAMEFORMAT_IDX'', 21),
   (''SBK_QTEXTLAYOUT_IDX'', 251), (''SBK_QTEXTLAYOUT_CURSORMODE_IDX'', 252),
   (''SBK_QTEXTLAYOUT_FORMATRANGE_IDX'', 253), (''SBK_QPIXMAP_IDX'', 176),
   (''SBK_QIMAGE_IDX'', 84), (''SBK_QIMAGE_INVERTMODE_IDX'', 86),
   (''SBK_QIMAGE_FORMAT_IDX'', 85), (''SBK_QBITMAP_IDX'', 15),
   (''SBK_QICON_IDX'', 77), (''SBK_QICON_MODE_IDX'', 78),
   (''SBK_QICON_STATE_IDX'', 79), (''SBK_QICONENGINE_IDX'', 81),
   (''SBK_QICONENGINE_ICONENGINEHOOK_IDX'', 83), (''SBK_QICONENGINE_AVAILABLESIZESARGUMENT_IDX'', 82),
   (''SBK_QPAGELAYOUT_IDX'', 131), (''SBK_QPAGELAYOUT_UNIT_IDX'', 134),
   (''SBK_QPAGELAYOUT_ORIENTATION_IDX'', 133), (''SBK_QPAGELAYOUT_MODE_IDX'', 132),
   (''SBK_QPAINTER_IDX'', 152), (''SBK_QPAINTER_RENDERHINT_IDX'', 156),
   (''SBK_QFLAGS_QPAINTER_RENDERHINT__IDX'', 44), (''SBK_QPAINTER_PIXMAPFRAGMENTHINT_IDX'', 155),
   (''SBK_QFLAGS_QPAINTER_PIXMAPFRAGMENTHINT__IDX'', 43), (''SBK_QPAINTER_COMPOSITIONMODE_IDX'', 153),
   (''SBK_QPAINTER_PIXMAPFRAGMENT_IDX'', 154), (''SBK_QBACKINGSTORE_IDX'', 14),
   (''SBK_QWINDOWSTATECHANGEEVENT_IDX'', 292), (''SBK_QSHORTCUTEVENT_IDX'', 195),
   (''SBK_QDROPEVENT_IDX'', 34), (''SBK_QDRAGMOVEEVENT_IDX'', 33),
   (''SBK_QDRAGENTEREVENT_IDX'', 31), (''SBK_QINPUTMETHODEVENT_IDX'', 95),
   (''SBK_QINPUTMETHODEVENT_ATTRIBUTETYPE_IDX'', 97), (''SBK_QINPUTMETHODEVENT_ATTRIBUTE_IDX'', 96),
   (''SBK_QCLOSEEVENT_IDX'', 19), (''SBK_QSTATUSTIPEVENT_IDX'', 202),
   (''SBK_QRESIZEEVENT_IDX'', 191), (''SBK_QHELPEVENT_IDX'', 74),
   (''SBK_QEXPOSEEVENT_IDX'', 36), (''SBK_QDRAGLEAVEEVENT_IDX'', 32),
   (''SBK_QMOVEEVENT_IDX'', 116), (''SBK_QHIDEEVENT_IDX'', 75),
   (''SBK_QSHOWEVENT_IDX'', 196), (''SBK_QICONDRAGEVENT_IDX'', 80),
   (''SBK_QENTEREVENT_IDX'', 35), (''SBK_QPAINTEVENT_IDX'', 151),
   (''SBK_QFOCUSEVENT_IDX'', 53), (''SBK_QINPUTEVENT_IDX'', 94),
   (''SBK_QKEYEVENT_IDX'', 99), (''SBK_QTABLETEVENT_IDX'', 213),
   (''SBK_QTABLETEVENT_TABLETDEVICE_IDX'', 215), (''SBK_QTABLETEVENT_POINTERTYPE_IDX'', 214),
   (''SBK_QCONTEXTMENUEVENT_IDX'', 24), (''SBK_QCONTEXTMENUEVENT_REASON_IDX'', 25),
   (''SBK_QTOUCHEVENT_IDX'', 277), (''SBK_QTOUCHEVENT_TOUCHPOINT_IDX'', 278),
   (''SBK_QTOUCHEVENT_TOUCHPOINT_INFOFLAG_IDX'', 279), (''SBK_QFLAGS_QTOUCHEVENT_TOUCHPOINT_INFOFLAG__IDX'', 52),
   (''SBK_QWHEELEVENT_IDX'', 288), (''SBK_QHOVEREVENT_IDX'', 76),
   (''SBK_QMOUSEEVENT_IDX'', 115), (''SBK_QTOOLBARCHANGEEVENT_IDX'', 273),
   (''SBK_QFILEOPENEVENT_IDX'', 37), (''SBK_QACTIONEVENT_IDX'', 13),
   (''SBK_QWHATSTHISCLICKEDEVENT_IDX'', 287), (''SBK_QREGION_IDX'', 189),
   (''SBK_QREGION_REGIONTYPE_IDX'', 190), (''SBK_QOPENGLCONTEXT_IDX'', 125),
   (''SBK_QOPENGLCONTEXT_OPENGLMODULETYPE_IDX'', 126), (''SBK_QSESSIONMANAGER_IDX'', 193),
   (''SBK_QSESSIONMANAGER_RESTARTHINT_IDX'', 194), (''SBK_QSCREEN_IDX'', 192),
   (''SBK_QCLIPBOARD_IDX'', 17), (''SBK_QCLIPBOARD_MODE_IDX'', 18),
   (''SBK_QVALIDATOR_IDX'', 282), (''SBK_QVALIDATOR_STATE_IDX'', 283),
   (''SBK_QINTVALIDATOR_IDX'', 98), (''SBK_QREGEXPVALIDATOR_IDX'', 188),
   (''SBK_QDOUBLEVALIDATOR_IDX'', 28), (''SBK_QDOUBLEVALIDATOR_NOTATION_IDX'', 29),
   (''SBK_QDRAG_IDX'', 30), (''SBK_QSYNTAXHIGHLIGHTER_IDX'', 212),
   (''SBK_QSTYLEHINTS_IDX'', 203), (''SBK_QPYTEXTOBJECT_IDX'', 181),
   (''SBK_QOPENGLSHADER_IDX'', 129), (''SBK_QOPENGLSHADER_SHADERTYPEBIT_IDX'', 130),
   (''SBK_QFLAGS_QOPENGLSHADER_SHADERTYPEBIT__IDX'', 40), (''SBK_QPDFWRITER_IDX'', 164),
   (''SBK_QSTANDARDITEMMODEL_IDX'', 199), (''SBK_QGUIAPPLICATION_IDX'', 73),
   (''SBK_QTEXTOBJECT_IDX'', 262), (''SBK_QTEXTFRAME_IDX'', 242),
   (''SBK_QTEXTTABLE_IDX'', 269), (''SBK_QTEXTFRAME_ITERATOR_IDX'', 243),
   (''SBK_QTEXTBLOCKGROUP_IDX'', 219), (''SBK_QTEXTLIST_IDX'', 259),
   (''SBK_QABSTRACTTEXTDOCUMENTLAYOUT_IDX'', 0), (''SBK_QABSTRACTTEXTDOCUMENTLAYOUT_PAINTCONTEXT_IDX'', 1),
   (''SBK_QABSTRACTTEXTDOCUMENTLAYOUT_SELECTION_IDX'', 2), (''SBK_QWINDOW_IDX'', 289),
   (''SBK_QWINDOW_VISIBILITY_IDX'', 291), (''SBK_QWINDOW_ANCESTORMODE_IDX'', 290),
   (''SBK_QPAINTDEVICEWINDOW_IDX'', 144), (''SBK_QRASTERWINDOW_IDX'', 184),
   (''SBK_QMOVIE_IDX'', 117), (''SBK_QMOVIE_MOVIESTATE_IDX'', 119),
   (''SBK_QMOVIE_CACHEMODE_IDX'', 118), (''SBK_QIMAGEWRITER_IDX'', 92),
   (''SBK_QIMAGEWRITER_IMAGEWRITERERROR_IDX'', 93), (''SBK_QIMAGEREADER_IDX'', 90),
   (''SBK_QIMAGEREADER_IMAGEREADERERROR_IDX'', 91), (''SBK_QTEXTDOCUMENTWRITER_IDX'', 235),
   (''SBK_QTEXTDOCUMENTFRAGMENT_IDX'', 234), (''SBK_QTEXTDOCUMENT_IDX'', 229),
   (''SBK_QTEXTDOCUMENT_METAINFORMATION_IDX'', 231), (''SBK_QTEXTDOCUMENT_FINDFLAG_IDX'', 230),
   (''SBK_QFLAGS_QTEXTDOCUMENT_FINDFLAG__IDX'', 47), (''SBK_QTEXTDOCUMENT_RESOURCETYPE_IDX'', 232),
   (''SBK_QTEXTDOCUMENT_STACKS_IDX'', 233)]"

definition converter_indices :: "(string \<times> int) list" where
  "converter_indices = [
   (''SBK_WID_IDX'', 0), (''SBK_QTGUI_QVECTOR_QTEXTLAYOUT_FORMATRANGE_IDX'', 1),
   (''SBK_QTGUI_QLIST_INT_IDX'', 2), (''SBK_QTGUI_QLIST_QFONTDATABASE_WRITINGSYSTEM_IDX'', 3),
   (''SBK_QTGUI_QVECTOR_QTEXTLENGTH_IDX'', 4), (''SBK_QTGUI_QMAP_INT_QVARIANT_IDX'', 5),
   (''SBK_QTGUI_QLIST_QTEXTOPTION_TAB_IDX'', 6), (''SBK_QTGUI_QVECTOR_QREAL_IDX'', 7),
   (''SBK_QTGUI_QLIST_QREAL_IDX'', 8), (''SBK_QTGUI_QVECTOR_QSIZE_IDX'', 9),
   (''SBK_QTGUI_QLIST_FLOAT_IDX'', 10), (''SBK_QTGUI_QPAIR_INT_INT_IDX'', 11),
   (''SBK_QTGUI_QLIST_QSTANDARDITEMPTR_IDX'', 12), (''SBK_QTGUI_QPAIR_QREAL_QCOLOR_IDX'', 13),
   (''SBK_QTGUI_QVECTOR_QPAIR_QREAL_QCOLOR_IDX'', 14), (''SBK_QTGUI_QLIST_QBYTEARRAY_IDX'', 15),
   (''SBK_QTGUI_QVECTOR_QPOINTF_IDX'', 16), (''SBK_QTGUI_QVECTOR_QUINT32_IDX'', 17),
   (''SBK_QTGUI_QLIST_QPOLYGONF_IDX'', 18), (''SBK_QTGUI_QLIST_QPOINTF_IDX'', 19),
   (''SBK_QTGUI_QVECTOR_QPOINT_IDX'', 20), (''SBK_QTGUI_QLIST_QPOINT_IDX'', 21),
   (''SBK_QTGUI_QLIST_CONSTQTOUCHDEVICEPTR_IDX'', 22), (''SBK_QTGUI_QLIST_QKEYSEQUENCE_IDX'', 23),
   (''SBK_QTGUI_QLIST_QTEXTLAYOUT_FORMATRANGE_IDX'', 24), (''SBK_QTGUI_QVECTOR_UNSIGNEDINT_IDX'', 25),
   (''SBK_QTGUI_QLIST_QSIZE_IDX'', 26), (''SBK_QTGUI_QVECTOR_QLINE_IDX'', 27),
   (''SBK_QTGUI_QVECTOR_QLINEF_IDX'', 28), (''SBK_QTGUI_QVECTOR_QRECT_IDX'', 29),
   (''SBK_QTGUI_QVECTOR_QRECTF_IDX'', 30), (''SBK_QTGUI_QLIST_QINPUTMETHODEVENT_ATTRIBUTE_IDX'', 31),
   (''SBK_QTGUI_QLIST_QTOUCHEVENT_TOUCHPOINT_IDX'', 32), (''SBK_QTGUI_QLIST_QOBJECTPTR_IDX'', 33),
   (''SBK_QTGUI_QSET_QBYTEARRAY_IDX'', 34), (''SBK_QTGUI_QLIST_QSCREENPTR_IDX'', 35),
   (''SBK_QTGUI_QVECTOR_INT_IDX'', 36), (''SBK_QTGUI_QHASH_INT_QBYTEARRAY_IDX'', 37),
   (''SBK_QTGUI_QLIST_QPERSISTENTMODELINDEX_IDX'', 38), (''SBK_QTGUI_QLIST_QWINDOWPTR_IDX'', 39),
   (''SBK_QTGUI_QLIST_QTEXTFRAMEPTR_IDX'', 40), (''SBK_QTGUI_QLIST_QTEXTBLOCK_IDX'', 41),
   (''SBK_QTGUI_QVECTOR_QTEXTFORMAT_IDX'', 42), (''SBK_QTGUI_QLIST_QVARIANT_IDX'', 43),
   (''SBK_QTGUI_QLIST_QSTRING_IDX'', 44), (''SBK_QTGUI_QMAP_QSTRING_QVARIANT_IDX'', 45)]"

text \<open>
  The header reads the tables as C arrays, \<^verbatim>\<open>SbkPySide2_QtGuiTypes[SBK_..._IDX]\<close>. A read
  outside the array has no defined result in C++, which the model writes as \<open>None\<close>.
\<close>

definition table_at :: "'a list \<Rightarrow> int \<Rightarrow> 'a option" where
  "table_at tbl i = (if 0 \<le> i \<and> nat i < length tbl then Some (tbl ! nat i) else None)"

section \<open>The launchers\<close>

subsection \<open>Strings\<close>

text \<open>
  The Windows launcher works on \<^verbatim>\<open>wchar_t\<close> strings (16-bit code units) and hands the
  interpreter a \<^verbatim>\<open>char\<close> string (bytes). \<open>L\<close> and \<open>str\<close> write the wide and the narrow
  literals of the source. A \<^verbatim>\<open>wchar_t*\<close> or \<^verbatim>\<open>char*\<close> read as a C string ends at its
  first NUL: \<open>c_str\<close> is that reading, used wherever the source constructs a string from a
  pointer or passes \<^verbatim>\<open>.c_str()\<close> to a function that takes a C string.
\<close>

type_synonym wchar_t = "16 word"
type_synonym wstring = "wchar_t list"
type_synonym byte = "8 word"
type_synonym std_string = "byte list"

definition L :: "string \<Rightarrow> wstring" where
  "L s = map of_char s"

definition str :: "string \<Rightarrow> std_string" where
  "str s = map of_char s"

definition c_str :: "'a::zero list \<Rightarrow> 'a list" where
  "c_str s = takeWhile (\<lambda>c. c \<noteq> 0) s"

subsection \<open>The process and the calls it makes\<close>

text \<open>
  A launcher's visible behaviour is the sequence of library calls it makes, the
  environment block it leaves, the environment the interpreter was initialised under,
  and the way the process ends. Every library call is logged in \<open>trace\<close>.
\<close>

datatype event =
    Call_GetModuleFileNameW
  | Call_PathRemoveFileSpecW
  | Call_wstat wstring
  | Call_wgetenv_s nat wstring
  | Call_malloc nat
  | Call_wputenv_s wstring wstring
  | Call_Py_SetProgramName
  | Call_PyEval_InitThreads
  | Call_Py_Initialize
  | Call_PySys_SetArgv
  | Call_WideCharToMultiByte wstring nat
  | Call_PyRun_SimpleString std_string
  | Call_Py_Finalize
  | Call_MessageBox string
  | Call_CFUserNotificationDisplayAlert string

type_synonym environment = "wstring \<rightharpoonup> wstring"

record process =
  environ :: environment
  interpreter :: "environment option"
  trace :: "event list"

datatype exception = Runtime_error

text \<open>
  A process ends through \<^verbatim>\<open>exit(n)\<close>, called by the launcher or by the interpreter, or, when
  an exception leaves \<^verbatim>\<open>main\<close>, through \<^verbatim>\<open>std::terminate\<close>, which does not pass an exit
  code of the launcher's choosing.
\<close>

datatype status = Exit int | Terminate exception

text \<open>
  \<^verbatim>\<open>PyRun_SimpleString\<close> returns 0, or -1 when the command ended in an exception. When the
  Python code raises \<^verbatim>\<open>SystemExit\<close> (\<^verbatim>\<open>sys.exit(n)\<close>, or the \<^verbatim>\<open>exit(0)\<close> that ends the macOS
  command) the interpreter does not return at all: it finalises itself and ends the process
  with the code of that exit, inside the call.
\<close>

datatype py_outcome = Returned int | Exited int

text \<open>
  What the operating system, the C runtime and the interpreter answer is not decided by
  the launcher; the answers are the fields of \<open>world\<close>. Each field gives the return value
  of the call, and the contents of the buffer the call fills where it fills one.
  \<open>WideCharToMultiByte\<close> stands for the call
  \<^verbatim>\<open>WideCharToMultiByte(CP_UTF8, 0, s, -1, buf, cb, NULL, NULL)\<close> on the C string \<open>s\<close>.
  Every call is taken to come to an end: a message box waits for its button, and the
  application run by \<^verbatim>\<open>PyRun_SimpleString\<close> is closed at some time.
\<close>

record world =
  GetModuleFileNameW :: "nat \<times> wstring"
  PathRemoveFileSpecW :: "wstring \<Rightarrow> int \<times> wstring"
  wstat :: "wstring \<Rightarrow> int \<times> 16 word"
  malloc :: "nat \<Rightarrow> bool"
  WideCharToMultiByte :: "wstring \<Rightarrow> nat \<Rightarrow> int \<times> std_string"
  PyRun_SimpleString :: "std_string \<Rightarrow> py_outcome"

definition S_IFDIR :: "16 word" where
  "S_IFDIR = 0x4000"

definition call :: "event \<Rightarrow> process \<Rightarrow> process" where
  "call e s = s\<lparr>trace := trace s @ [e]\<rparr>"

definition initial :: "environment \<Rightarrow> process" where
  "initial env = \<lparr>environ = env, interpreter = None, trace = []\<rparr>"

text \<open>
  \<^verbatim>\<open>_wgetenv_s(&n, buffer, numberOfElements, varname)\<close> stores in \<open>n\<close> the size the value
  needs with its terminating NUL, or 0 when the variable is not set, and copies the value
  when the buffer holds it.
\<close>

definition wgetenv_s :: "environment \<Rightarrow> nat \<Rightarrow> wstring \<Rightarrow> nat \<times> wstring" where
  "wgetenv_s env numberOfElements varname =
     (case env varname of
        None \<Rightarrow> (0, [])
      | Some v \<Rightarrow> (length v + 1, if length v + 1 \<le> numberOfElements then v @ [0] else []))"

text \<open>
  The C runtime declares
  \<^verbatim>\<open>errno_t _wputenv_s(const wchar_t *varname, const wchar_t *value_string)\<close>: the first
  argument names the variable, the second is the value it gets.
\<close>

definition wputenv_s :: "wstring \<Rightarrow> wstring \<Rightarrow> process \<Rightarrow> process" where
  "wputenv_s varname value_string s =
     call (Call_wputenv_s varname value_string)
       (s\<lparr>environ := (environ s)(varname \<mapsto> value_string)\<rparr>)"

definition MessageBox :: "string \<Rightarrow> process \<Rightarrow> process" where
  "MessageBox msg s = call (Call_MessageBox msg) s"

definition CFUserNotificationDisplayAlert :: "string \<Rightarrow> process \<Rightarrow> process" where
  "CFUserNotificationDisplayAlert msg s = call (Call_CFUserNotificationDisplayAlert msg) s"

text \<open>The interpreter reads the environment of the process when it is initialised.\<close>

definition Py_Initialize :: "process \<Rightarrow> process" where
  "Py_Initialize s = call Call_Py_Initialize (s\<lparr>interpreter := Some (environ s)\<rparr>)"

definition could_not_start :: "string \<Rightarrow> string \<Rightarrow> string" where
  "could_not_start sep reason = ''Could not start the application'' @ sep @ [CHR 0x0A] @ reason"

subsection \<open>\<^verbatim>\<open>WstrToUtf8Str\<close> (bookmarks.cpp, lines 19 to 48)\<close>

text \<open>
  The function returns a string or throws; the second component lists the conversion
  calls it made. \<open>api\<close> is the conversion call.
\<close>

definition WstrToUtf8Str ::
  "(wstring \<Rightarrow> nat \<Rightarrow> int \<times> std_string) \<Rightarrow> wstring \<Rightarrow> (exception + std_string) \<times> event list" where
  "WstrToUtf8Str api wstr =
     (if wstr \<noteq> [] then
        let sizeRequired = fst (api (c_str wstr) 0);
            sizing = Call_WideCharToMultiByte (c_str wstr) 0
        in
        if sizeRequired > 0 then
          let converted = api (c_str wstr) (nat sizeRequired);
              bytesConverted = fst converted;
              utf8String = snd converted;
              calls = [sizing, Call_WideCharToMultiByte (c_str wstr) (nat sizeRequired)]
          in
          if bytesConverted \<noteq> 0 then (Inr (c_str utf8String), calls)
          else (Inl Runtime_error, calls)
        else (Inr [], [sizing])
      else (Inr [], []))"

subsection \<open>\<^verbatim>\<open>main\<close> of the Windows launcher (bookmarks.cpp, lines 53 to 174)\<close>

definition main_win :: "world \<Rightarrow> process \<Rightarrow> status \<times> process" where
  "main_win w s0 =
     (let s1 = call Call_GetModuleFileNameW s0;
          path0 = snd (GetModuleFileNameW w)
      in
      if fst (GetModuleFileNameW w) = 0 then
        (Exit 1, MessageBox (could_not_start '':'' ''GetModuleFileNameW returned a bogus value.'') s1)
      else
      let s2 = call Call_PathRemoveFileSpecW s1;
          path = snd (PathRemoveFileSpecW w (c_str path0))
      in
      if fst (PathRemoveFileSpecW w (c_str path0)) = 0 then
        (Exit 1, MessageBox (could_not_start '':'' ''PathRemoveFileSpecW returned a bogus value.'') s2)
      else
      let bin_dir = c_str path @ L (CHR 0x5C # ''bin'');
          s3 = call (Call_wstat (c_str bin_dir)) s2;
          info = wstat w (c_str bin_dir)
      in
      if fst info \<noteq> 0 then
        (Exit 1, MessageBox (could_not_start '':'' ''The 'bin' directory seems to be missing.'') s3)
      else if snd info AND S_IFDIR = 0 then
        (Exit 1, MessageBox (could_not_start '':'' ''The 'bin' is not a valid directory.'') s3)
      else
      let s4 = call (Call_wgetenv_s 0 (L ''PATH'')) s3;
          envsize = fst (wgetenv_s (environ s4) 0 (L ''PATH''))
      in
      if envsize = 0 then
        (Exit 1, MessageBox (could_not_start ''.'' ''Could not get the PATH environment.'') s4)
      else
      let s5 = call (Call_malloc (envsize * 2)) s4 in
      if \<not> malloc w (envsize * 2) then
        (Exit 1, MessageBox (could_not_start ''.'' ''Could not allocate memory.'') s5)
      else
      let s6 = call (Call_wgetenv_s envsize (L ''PATH'')) s5;
          pathvar = snd (wgetenv_s (environ s6) envsize (L ''PATH''));
          modified_path = bin_dir @ L '';'' @ c_str pathvar;
          s7 = wputenv_s (c_str modified_path) (L ''PATH'') s6;
          pydll = c_str path @ L (CHR 0x5C # ''python27.dll'');
          s8 = call (Call_wstat (c_str pydll)) s7
      in
      if fst (wstat w (c_str pydll)) \<noteq> 0 then
        (Exit 1, MessageBox (could_not_start '':'' ''The 'python27.dll' seems to be missing.'') s8)
      else
      let pythonpath = c_str path @ L (CHR 0x5C # ''shared'');
          s9 = wputenv_s (c_str pythonpath) (L ''PYTHONPATH'') s8;
          s10 = call Call_PySys_SetArgv (Py_Initialize
                  (call Call_PyEval_InitThreads (call Call_Py_SetProgramName s9)));
          wcmd = L (''import os;import sys;os.environ['PATH'] = r'' @ [CHR 0x27])
                 @ modified_path
                 @ L (CHR 0x27 # '';sys.path.insert(0, r'' @ [CHR 0x27])
                 @ c_str path @ L (CHR 0x5C # ''shared'')
                 @ L (CHR 0x27 # '');import bookmarks; bookmarks.exec_();'');
          conversion = WstrToUtf8Str (WideCharToMultiByte w) wcmd;
          s11 = s10\<lparr>trace := trace s10 @ snd conversion\<rparr>
      in
      case fst conversion of
        Inl e \<Rightarrow> (Terminate e, s11)
      | Inr cmd \<Rightarrow>
          let s12 = call (Call_PyRun_SimpleString (c_str cmd)) s11 in
          case PyRun_SimpleString w (c_str cmd) of
            Exited n \<Rightarrow> (Exit n, s12)
          | Returned res \<Rightarrow>
              if res = - 1 then
                (Exit 1, MessageBox (could_not_start ''.'' ''An internal Python error occured.'')
                           (call Call_Py_Finalize s12))
              else (Exit 0, call Call_Py_Finalize s12))"

subsection \<open>\<^verbatim>\<open>main\<close> of the macOS launcher (bin.cpp, lines 10 to 33)\<close>

definition main_osx :: "world \<Rightarrow> process \<Rightarrow> status \<times> process" where
  "main_osx w s0 =
     (let cmd = str ''import bookmarks; bookmarks.exec_(); exit(0);'';
          s1 = call Call_PySys_SetArgv (Py_Initialize
                 (call Call_PyEval_InitThreads (call Call_Py_SetProgramName s0)));
          s2 = call (Call_PyRun_SimpleString (c_str cmd)) s1
      in
      case PyRun_SimpleString w (c_str cmd) of
        Exited n \<Rightarrow> (Exit n, s2)
      | Returned res \<Rightarrow>
          if res = - 1 then
            (Exit 1, CFUserNotificationDisplayAlert
                       (could_not_start ''.'' ''An internal Python error occured.'')
                       (call Call_Py_Finalize s2))
          else (Exit 0, call Call_Py_Finalize s2))"

subsection \<open>The UTF-8 conversion\<close>

text \<open>
  The UTF-8 encoding of a UTF-16 string: a code unit outside the surrogate range is a code
  point of its own, a high surrogate followed by a low one is a code point above
  \<open>0xFFFF\<close>, and a surrogate without its partner is replaced by \<open>U+FFFD\<close>, as the
  Windows conversion does when called without flags.
\<close>

definition utf8_code_point :: "nat \<Rightarrow> std_string" where
  "utf8_code_point n =
     (if n < 0x80 then [of_nat n]
      else if n < 0x800 then [of_nat (0xC0 + n div 0x40), of_nat (0x80 + n mod 0x40)]
      else if n < 0x10000 then
        [of_nat (0xE0 + n div 0x1000), of_nat (0x80 + n div 0x40 mod 0x40),
         of_nat (0x80 + n mod 0x40)]
      else
        [of_nat (0xF0 + n div 0x40000 mod 0x8), of_nat (0x80 + n div 0x1000 mod 0x40),
         of_nat (0x80 + n div 0x40 mod 0x40), of_nat (0x80 + n mod 0x40)])"

definition high_surrogate :: "wchar_t \<Rightarrow> bool" where
  "high_surrogate c \<longleftrightarrow> 0xD800 \<le> unat c \<and> unat c < 0xDC00"

definition low_surrogate :: "wchar_t \<Rightarrow> bool" where
  "low_surrogate c \<longleftrightarrow> 0xDC00 \<le> unat c \<and> unat c < 0xE000"

definition scalar :: "wchar_t \<Rightarrow> nat" where
  "scalar c = (if high_surrogate c \<or> low_surrogate c then 0xFFFD else unat c)"

fun utf8_of_utf16 :: "wstring \<Rightarrow> std_string" where
  "utf8_of_utf16 [] = []"
| "utf8_of_utf16 [c] = utf8_code_point (scalar c)"
| "utf8_of_utf16 (c # d # cs) =
     (if high_surrogate c \<and> low_surrogate d then
        utf8_code_point (0x10000 + (unat c - 0xD800) * 0x400 + (unat d - 0xDC00))
        @ utf8_of_utf16 cs
      else utf8_code_point (scalar c) @ utf8_of_utf16 (d # cs))"

text \<open>
  The conversion call as Windows documents it for \<^verbatim>\<open>CP_UTF8\<close>, a NUL-terminated input
  and no flags: with \<open>cb = 0\<close> it returns the number of bytes the result needs, the
  terminating NUL counted; otherwise it writes the result and its NUL, and returns the
  number of bytes written, or 0 when the buffer is too small.
\<close>

definition WideCharToMultiByte_utf8 :: "wstring \<Rightarrow> nat \<Rightarrow> int \<times> std_string" where
  "WideCharToMultiByte_utf8 s cb =
     (let out = utf8_of_utf16 s @ [0] in
      if cb = 0 then (int (length out), [])
      else if length out \<le> cb then (int (length out), out @ replicate (cb - length out) 0)
      else (0, replicate cb 0))"

subsection \<open>Names for the values and the checks of the Windows launcher\<close>

text \<open>
  The values \<^verbatim>\<open>main\<close> computes on the way, and the conditions it tests, as functions of
  what the world answers and of the environment the process starts with.
\<close>

definition exe_dir :: "world \<Rightarrow> wstring" where
  "exe_dir w = c_str (snd (PathRemoveFileSpecW w (c_str (snd (GetModuleFileNameW w)))))"

definition bin_dir :: "world \<Rightarrow> wstring" where
  "bin_dir w = exe_dir w @ L (CHR 0x5C # ''bin'')"

definition pydll :: "world \<Rightarrow> wstring" where
  "pydll w = exe_dir w @ L (CHR 0x5C # ''python27.dll'')"

definition pythonpath :: "world \<Rightarrow> wstring" where
  "pythonpath w = exe_dir w @ L (CHR 0x5C # ''shared'')"

definition previous_PATH :: "environment \<Rightarrow> wstring" where
  "previous_PATH env = (case env (L ''PATH'') of None \<Rightarrow> [] | Some v \<Rightarrow> c_str v)"

definition envsize :: "environment \<Rightarrow> nat" where
  "envsize env = fst (wgetenv_s env 0 (L ''PATH''))"

definition modified_path :: "world \<Rightarrow> environment \<Rightarrow> wstring" where
  "modified_path w env = bin_dir w @ L '';'' @ previous_PATH env"

definition wcmd :: "world \<Rightarrow> environment \<Rightarrow> wstring" where
  "wcmd w env =
     L (''import os;import sys;os.environ['PATH'] = r'' @ [CHR 0x27])
     @ modified_path w env
     @ L (CHR 0x27 # '';sys.path.insert(0, r'' @ [CHR 0x27])
     @ pythonpath w
     @ L (CHR 0x27 # '');import bookmarks; bookmarks.exec_();'')"

definition startup :: "world \<Rightarrow> environment \<Rightarrow> (exception + std_string) \<times> event list" where
  "startup w env = WstrToUtf8Str (WideCharToMultiByte w) (wcmd w env)"

definition resolves :: "world \<Rightarrow> bool" where
  "resolves w \<longleftrightarrow> fst (GetModuleFileNameW w) \<noteq> 0"

definition strips :: "world \<Rightarrow> bool" where
  "strips w \<longleftrightarrow> fst (PathRemoveFileSpecW w (c_str (snd (GetModuleFileNameW w)))) \<noteq> 0"

definition bin_exists :: "world \<Rightarrow> bool" where
  "bin_exists w \<longleftrightarrow> fst (wstat w (bin_dir w)) = 0"

definition bin_is_directory :: "world \<Rightarrow> bool" where
  "bin_is_directory w \<longleftrightarrow> snd (wstat w (bin_dir w)) AND S_IFDIR \<noteq> 0"

definition PATH_found :: "environment \<Rightarrow> bool" where
  "PATH_found env \<longleftrightarrow> envsize env \<noteq> 0"

definition allocates :: "world \<Rightarrow> environment \<Rightarrow> bool" where
  "allocates w env \<longleftrightarrow> malloc w (envsize env * 2)"

definition dll_exists :: "world \<Rightarrow> bool" where
  "dll_exists w \<longleftrightarrow> fst (wstat w (pydll w)) = 0"

definition converts :: "world \<Rightarrow> environment \<Rightarrow> bool" where
  "converts w env \<longleftrightarrow> (case fst (startup w env) of Inl e \<Rightarrow> False | Inr cmd \<Rightarrow> True)"

definition command :: "world \<Rightarrow> environment \<Rightarrow> std_string" where
  "command w env = (case fst (startup w env) of Inl e \<Rightarrow> [] | Inr cmd \<Rightarrow> c_str cmd)"

text \<open>The call returned a value other than -1; the call returned -1.\<close>

definition python_runs :: "world \<Rightarrow> environment \<Rightarrow> bool" where
  "python_runs w env \<longleftrightarrow>
     (case PyRun_SimpleString w (command w env) of
        Returned res \<Rightarrow> res \<noteq> - 1
      | Exited n \<Rightarrow> False)"

definition python_error :: "world \<Rightarrow> environment \<Rightarrow> bool" where
  "python_error w env \<longleftrightarrow> PyRun_SimpleString w (command w env) = Returned (- 1)"

text \<open>The command of the macOS launcher.\<close>

definition osx_cmd :: std_string where
  "osx_cmd = str ''import bookmarks; bookmarks.exec_(); exit(0);''"

text \<open>
  How a run ends once the command has been handed to the interpreter: the status, and the
  calls made after \<^verbatim>\<open>PyRun_SimpleString\<close>, \<open>alert\<close> being the error dialog of the platform.
\<close>

definition status_after :: "py_outcome \<Rightarrow> status" where
  "status_after r =
     (case r of
        Exited n \<Rightarrow> Exit n
      | Returned res \<Rightarrow> if res = - 1 then Exit 1 else Exit 0)"

definition calls_after :: "event \<Rightarrow> py_outcome \<Rightarrow> event list" where
  "calls_after alert r =
     (case r of
        Exited n \<Rightarrow> []
      | Returned res \<Rightarrow> if res = - 1 then [Call_Py_Finalize, alert] else [Call_Py_Finalize])"

text \<open>The calls of a run in which every check up to the interpreter's start passes.\<close>

definition setup_calls :: "world \<Rightarrow> environment \<Rightarrow> event list" where
  "setup_calls w env =
     [Call_GetModuleFileNameW, Call_PathRemoveFileSpecW, Call_wstat (bin_dir w),
      Call_wgetenv_s 0 (L ''PATH''), Call_malloc (envsize env * 2),
      Call_wgetenv_s (envsize env) (L ''PATH''),
      Call_wputenv_s (modified_path w env) (L ''PATH''), Call_wstat (pydll w),
      Call_wputenv_s (pythonpath w) (L ''PYTHONPATH''),
      Call_Py_SetProgramName, Call_PyEval_InitThreads, Call_Py_Initialize, Call_PySys_SetArgv]"

text \<open>The environment after the two writes of the Windows launcher.\<close>

definition written :: "world \<Rightarrow> environment \<Rightarrow> environment" where
  "written w env = env(modified_path w env \<mapsto> L ''PATH'', pythonpath w \<mapsto> L ''PYTHONPATH'')"

text \<open>The commands a trace hands to the interpreter.\<close>

fun commands :: "event list \<Rightarrow> std_string list" where
  "commands [] = []"
| "commands (Call_PyRun_SimpleString cmd # es) = cmd # commands es"
| "commands (e # es) = commands es"

subsection \<open>Sample runs\<close>

text \<open>
  An installation in \<^verbatim>\<open>C:\app\<close> with its \<^verbatim>\<open>bin\<close> directory and its \<^verbatim>\<open>python27.dll\<close>,
  started with \<^verbatim>\<open>PATH=C:\Windows\<close>; the conversion is the documented one and the call that
  runs the startup command returns 0.
\<close>

definition sample_dir :: wstring where
  "sample_dir = L (''C:'' @ CHR 0x5C # ''app'')"

definition sample_PATH :: wstring where
  "sample_PATH = L (''C:'' @ CHR 0x5C # ''Windows'')"

definition sample_world :: world where
  "sample_world =
     \<lparr>GetModuleFileNameW = (20, sample_dir @ L (CHR 0x5C # ''bookmarks.exe'')),
      PathRemoveFileSpecW = (\<lambda>p. (1, sample_dir)),
      wstat = (\<lambda>p. if p = sample_dir @ L (CHR 0x5C # ''bin'') then (0, 0x41FF)
                   else if p = sample_dir @ L (CHR 0x5C # ''python27.dll'') then (0, 0x81FF)
                   else (- 1, 0)),
      malloc = (\<lambda>n. True),
      WideCharToMultiByte = WideCharToMultiByte_utf8,
      PyRun_SimpleString = (\<lambda>cmd. Returned 0)\<rparr>"

definition sample_environment :: environment where
  "sample_environment = [L ''PATH'' \<mapsto> sample_PATH]"

text \<open>A conversion whose sizing call succeeds and whose converting call returns 0.\<close>

definition failing_conversion :: "wstring \<Rightarrow> nat \<Rightarrow> int \<times> std_string" where
  "failing_conversion s cb = (if cb = 0 then (int (length s) + 1, []) else (0, replicate cb 0))"

text \<open>The same installation without its \<^verbatim>\<open>bin\<close> directory, and with a failing startup command.\<close>

definition no_bin_world :: world where
  "no_bin_world = sample_world\<lparr>wstat := (\<lambda>p. (- 1, 0))\<rparr>"

definition python_error_world :: world where
  "python_error_world = sample_world\<lparr>PyRun_SimpleString := (\<lambda>cmd. Returned (- 1))\<rparr>"

text \<open>A world in which the Python code raises \<^verbatim>\<open>SystemExit\<close> with code \<open>n\<close>.\<close>

definition system_exit_world :: "int \<Rightarrow> world" where
  "system_exit_world n = sample_world\<lparr>PyRun_SimpleString := (\<lambda>cmd. Exited n)\<rparr>"

text \<open>
  The sample installation started with a \<^verbatim>\<open>PATH\<close> that ends in a backslash: \<^verbatim>\<open>C:\Windows\<close>
  followed by a backslash.
\<close>

definition trailing_backslash_environment :: environment where
  "trailing_backslash_environment = [L ''PATH'' \<mapsto> sample_PATH @ L [CHR 0x5C]]"

section \<open>Properties of the binding header\<close>

lemma type_indices_bounded:
  "list_all (\<lambda>p. 0 \<le> snd p \<and> snd p < 295) type_indices"
  by (simp add: type_indices_def)

lemma converter_indices_bounded:
  "list_all (\<lambda>p. 0 \<le> snd p \<and> snd p < 46) converter_indices"
  by (simp add: converter_indices_def)

lemma table_at_in_bounds:
  "0 \<le> i \<Longrightarrow> i < int (length tbl) \<Longrightarrow> table_at tbl i = Some (tbl ! nat i)"
  by (simp add: table_at_def)

text \<open>
  Claim C9. Every type index macro of the header is at least 0 and below
  \<open>SBK_QtGui_IDX_COUNT\<close> (295), every converter index macro is at least 0 and below
  \<open>SBK_QtGui_CONVERTERS_IDX_COUNT\<close> (46), and therefore a read of a table holding that
  many entries through any of these macros is inside the table.
\<close>

theorem sbk_indices_in_bounds:
  "(\<forall>p \<in> set type_indices. 0 \<le> snd p \<and> snd p < SBK_QtGui_IDX_COUNT) \<and>
   (\<forall>p \<in> set converter_indices. 0 \<le> snd p \<and> snd p < SBK_QtGui_CONVERTERS_IDX_COUNT) \<and>
   (\<forall>types. int (length types) = SBK_QtGui_IDX_COUNT \<longrightarrow>
      (\<forall>p \<in> set type_indices. table_at types (snd p) = Some (types ! nat (snd p)))) \<and>
   (\<forall>convs. int (length convs) = SBK_QtGui_CONVERTERS_IDX_COUNT \<longrightarrow>
      (\<forall>p \<in> set converter_indices. table_at convs (snd p) = Some (convs ! nat (snd p))))"
proof -
  have t: "\<forall>p \<in> set type_indices. 0 \<le> snd p \<and> snd p < 295"
    using type_indices_bounded by (simp only: list_all_iff)
  have c: "\<forall>p \<in> set converter_indices. 0 \<le> snd p \<and> snd p < 46"
    using converter_indices_bounded by (simp only: list_all_iff)
  show ?thesis
    using t c
    by (auto simp add: SBK_QtGui_IDX_COUNT_def SBK_QtGui_CONVERTERS_IDX_COUNT_def
        intro!: table_at_in_bounds)
qed

theorem sbk_indices_in_bounds_witness:
  "(''SBK_QTEXTDOCUMENT_STACKS_IDX'', 233) \<in> set type_indices \<and>
   (''SBK_QTGUI_QMAP_QSTRING_QVARIANT_IDX'', 45) \<in> set converter_indices \<and>
   (233::int) < SBK_QtGui_IDX_COUNT \<and> (45::int) < SBK_QtGui_CONVERTERS_IDX_COUNT \<and>
   table_at (replicate 295 (0::nat)) 233 = Some 0 \<and>
   table_at (replicate 46 (0::nat)) 45 = Some 0"
proof -
  have m1: "(''SBK_QTEXTDOCUMENT_STACKS_IDX'', 233) \<in> set type_indices"
    by (simp add: type_indices_def)
  have m2: "(''SBK_QTGUI_QMAP_QSTRING_QVARIANT_IDX'', 45) \<in> set converter_indices"
    by (simp add: converter_indices_def)
  have l1: "int (length (replicate 295 (0::nat))) = SBK_QtGui_IDX_COUNT"
    by (simp add: SBK_QtGui_IDX_COUNT_def)
  have l2: "int (length (replicate 46 (0::nat))) = SBK_QtGui_CONVERTERS_IDX_COUNT"
    by (simp add: SBK_QtGui_CONVERTERS_IDX_COUNT_def)
  from sbk_indices_in_bounds m1 m2 l1 l2 show ?thesis
    by fastforce
qed


section \<open>Properties of the launchers\<close>

subsection \<open>C strings and the values of the Windows launcher\<close>

lemma c_str_nul_free: "0 \<notin> set (c_str s)"
  unfolding c_str_def by (induction s) auto

lemma c_str_id: "0 \<notin> set s \<Longrightarrow> c_str s = s"
  unfolding c_str_def by (induction s) auto

lemma c_str_c_str_append: "c_str (c_str x @ y) = c_str x @ c_str y"
  unfolding c_str_def by (induction x) auto

lemma c_str_append: "0 \<notin> set x \<Longrightarrow> c_str (x @ y) = x @ c_str y"
  unfolding c_str_def by (induction x) auto

lemma L_bin: "0 \<notin> set (L (CHR 0x5C # ''bin''))"
  by (simp add: L_def)
lemma L_dll: "0 \<notin> set (L (CHR 0x5C # ''python27.dll''))"
  by (simp add: L_def)
lemma L_shared: "0 \<notin> set (L (CHR 0x5C # ''shared''))"
  by (simp add: L_def)
lemma L_semi: "0 \<notin> set (L '';'')"
  by (simp add: L_def)

lemma exe_dir_nul_free: "0 \<notin> set (exe_dir w)"
  by (simp add: exe_dir_def c_str_nul_free)

lemma previous_PATH_nul_free: "0 \<notin> set (previous_PATH env)"
  by (simp add: previous_PATH_def c_str_nul_free split: option.split)

lemma bin_dir_nul_free: "0 \<notin> set (bin_dir w)"
  by (simp add: bin_dir_def exe_dir_nul_free L_bin)

lemma pydll_nul_free: "0 \<notin> set (pydll w)"
  by (simp add: pydll_def exe_dir_nul_free L_dll)

lemma pythonpath_nul_free: "0 \<notin> set (pythonpath w)"
  by (simp add: pythonpath_def exe_dir_nul_free L_shared)

lemma modified_path_nul_free: "0 \<notin> set (modified_path w env)"
  by (simp add: modified_path_def bin_dir_nul_free previous_PATH_nul_free L_semi)


lemma c_str_snoc_nul: "c_str (v @ [0]) = c_str v"
  unfolding c_str_def by (induction v) auto

lemma pathvar_eq:
  "c_str (snd (wgetenv_s env (fst (wgetenv_s env 0 (L ''PATH''))) (L ''PATH''))) = previous_PATH env"
  by (simp add: wgetenv_s_def previous_PATH_def c_str_snoc_nul split: option.split)
     (simp add: c_str_def)

lemma c_str_bin_dir: "c_str (c_str p @ L (CHR 0x5C # ''bin'')) = c_str p @ L (CHR 0x5C # ''bin'')"
  by (simp add: c_str_c_str_append c_str_id L_bin)

lemma c_str_pydll:
  "c_str (c_str p @ L (CHR 0x5C # ''python27.dll'')) = c_str p @ L (CHR 0x5C # ''python27.dll'')"
  by (simp add: c_str_c_str_append c_str_id L_dll)

lemma c_str_pythonpath:
  "c_str (c_str p @ L (CHR 0x5C # ''shared'')) = c_str p @ L (CHR 0x5C # ''shared'')"
  by (simp add: c_str_c_str_append c_str_id L_shared)

lemma c_str_modified_path:
  "c_str (c_str p @ L (CHR 0x5C # ''bin'') @ L '';'' @ previous_PATH env)
     = c_str p @ L (CHR 0x5C # ''bin'') @ L '';'' @ previous_PATH env"
  by (rule c_str_id) (simp add: c_str_nul_free L_bin L_semi previous_PATH_nul_free)

lemma exception_unique: "(e = Runtime_error) = True"
  by (cases e) simp

lemma main_win_unfold:
  "main_win w (initial env) =
     (if \<not> resolves w then
        (Exit 1, \<lparr>environ = env, interpreter = None,
           trace = take 1 (setup_calls w env) @ [Call_MessageBox
             (could_not_start '':'' ''GetModuleFileNameW returned a bogus value.'')]\<rparr>)
      else if \<not> strips w then
        (Exit 1, \<lparr>environ = env, interpreter = None,
           trace = take 2 (setup_calls w env) @ [Call_MessageBox
             (could_not_start '':'' ''PathRemoveFileSpecW returned a bogus value.'')]\<rparr>)
      else if \<not> bin_exists w then
        (Exit 1, \<lparr>environ = env, interpreter = None,
           trace = take 3 (setup_calls w env) @ [Call_MessageBox
             (could_not_start '':'' ''The 'bin' directory seems to be missing.'')]\<rparr>)
      else if \<not> bin_is_directory w then
        (Exit 1, \<lparr>environ = env, interpreter = None,
           trace = take 3 (setup_calls w env) @ [Call_MessageBox
             (could_not_start '':'' ''The 'bin' is not a valid directory.'')]\<rparr>)
      else if \<not> PATH_found env then
        (Exit 1, \<lparr>environ = env, interpreter = None,
           trace = take 4 (setup_calls w env) @ [Call_MessageBox
             (could_not_start ''.'' ''Could not get the PATH environment.'')]\<rparr>)
      else if \<not> allocates w env then
        (Exit 1, \<lparr>environ = env, interpreter = None,
           trace = take 5 (setup_calls w env) @ [Call_MessageBox
             (could_not_start ''.'' ''Could not allocate memory.'')]\<rparr>)
      else if \<not> dll_exists w then
        (Exit 1, \<lparr>environ = env(modified_path w env \<mapsto> L ''PATH''), interpreter = None,
           trace = take 8 (setup_calls w env) @ [Call_MessageBox
             (could_not_start '':'' ''The 'python27.dll' seems to be missing.'')]\<rparr>)
      else if \<not> converts w env then
        (Terminate Runtime_error,
         \<lparr>environ = written w env, interpreter = Some (written w env),
            trace = setup_calls w env @ snd (startup w env)\<rparr>)
      else
        (status_after (PyRun_SimpleString w (command w env)),
         \<lparr>environ = written w env, interpreter = Some (written w env),
            trace = setup_calls w env @ snd (startup w env)
              @ Call_PyRun_SimpleString (command w env)
              # calls_after
                  (Call_MessageBox (could_not_start ''.'' ''An internal Python error occured.''))
                  (PyRun_SimpleString w (command w env))\<rparr>))"
  unfolding main_win_def resolves_def strips_def bin_exists_def bin_is_directory_def
    PATH_found_def allocates_def dll_exists_def converts_def command_def
    status_after_def calls_after_def
    startup_def wcmd_def setup_calls_def written_def modified_path_def pythonpath_def
    pydll_def bin_dir_def exe_dir_def envsize_def
  by (simp add: Let_def initial_def call_def MessageBox_def wputenv_s_def Py_Initialize_def
      pathvar_eq c_str_bin_dir c_str_pydll c_str_pythonpath c_str_modified_path
      exception_unique split: sum.split py_outcome.split)

subsection \<open>The UTF-8 conversion\<close>

lemma byte_of_nat_neq_0: "0 < k \<Longrightarrow> k < 256 \<Longrightarrow> (of_nat k :: byte) \<noteq> 0"
  by (rule of_nat_neq_0) simp_all

lemma byte_sum_neq_0:
  "k < 64 \<Longrightarrow> (128 + of_nat k :: byte) \<noteq> 0"
  "k < 64 \<Longrightarrow> (192 + of_nat k :: byte) \<noteq> 0"
  "k < 16 \<Longrightarrow> (224 + of_nat k :: byte) \<noteq> 0"
  "k < 16 \<Longrightarrow> (240 + of_nat k :: byte) \<noteq> 0"
  using byte_of_nat_neq_0 [of "128 + k"] byte_of_nat_neq_0 [of "192 + k"]
    byte_of_nat_neq_0 [of "224 + k"] byte_of_nat_neq_0 [of "240 + k"]
  by simp_all

lemma utf8_code_point_nul_free:
  assumes "0 < n" and "n < 0x110000"
  shows "0 \<notin> set (utf8_code_point n)"
proof -
  have a: "n < 0x800 \<Longrightarrow> n div 0x40 < 64" by simp
  have b: "n < 0x10000 \<Longrightarrow> n div 0x1000 < 16" by simp
  have c: "n div 0x40 mod 0x40 < 64" "n mod 0x40 < 64" "n div 0x1000 mod 0x40 < 64"
    "n div 0x40000 mod 8 < 16"
    by simp_all
  have d: "n < 0x80 \<Longrightarrow> (of_nat n :: byte) \<noteq> 0"
    using assms(1) by (intro byte_of_nat_neq_0) simp_all
  show ?thesis
    using a b c d
    by (simp add: utf8_code_point_def byte_sum_neq_0 eq_commute [of 0])
qed

lemma scalar_bounds: "c \<noteq> 0 \<Longrightarrow> 0 < scalar c \<and> scalar c < 0x110000"
proof -
  assume "c \<noteq> 0"
  then have "0 < unat c" by (simp add: unat_gt_0)
  moreover have "unat c < 2 ^ 16" using unsigned_less [of c] by simp
  ultimately show ?thesis by (simp add: scalar_def)
qed

lemma pair_bounds:
  assumes "high_surrogate c" and "low_surrogate d"
  shows "0 < 0x10000 + (unat c - 0xD800) * 0x400 + (unat d - 0xDC00) \<and>
   0x10000 + (unat c - 0xD800) * 0x400 + (unat d - 0xDC00) < 0x110000"
proof -
  have "unat c - 0xD800 \<le> 1023"
    using assms(1) unfolding high_surrogate_def by linarith
  then have "(unat c - 0xD800) * 0x400 \<le> 1023 * 0x400"
    by (rule mult_le_mono1)
  moreover have "unat d - 0xDC00 < 0x400"
    using assms(2) unfolding low_surrogate_def by linarith
  ultimately show ?thesis by linarith
qed

lemma utf8_of_utf16_nul_free: "0 \<notin> set s \<Longrightarrow> 0 \<notin> set (utf8_of_utf16 s)"
proof (induction s rule: utf8_of_utf16.induct)
  case 1
  show ?case by simp
next
  case (2 c)
  then show ?case using scalar_bounds [of c] by (simp add: utf8_code_point_nul_free)
next
  case (3 c d cs)
  then show ?case
    using scalar_bounds [of c] pair_bounds [of c d]
    by (simp add: utf8_code_point_nul_free)
qed

lemma utf8_of_utf16_append:
  "ys = [] \<or> \<not> low_surrogate (hd ys) \<Longrightarrow>
   utf8_of_utf16 (xs @ ys) = utf8_of_utf16 xs @ utf8_of_utf16 ys"
proof (induction xs rule: utf8_of_utf16.induct)
  case 1
  show ?case by simp
next
  case (2 c)
  then show ?case by (cases ys) simp_all
next
  case (3 c d cs)
  then show ?case by simp
qed

lemma WstrToUtf8Str_utf8:
  "fst (WstrToUtf8Str WideCharToMultiByte_utf8 wstr) = Inr (utf8_of_utf16 (c_str wstr))"
proof (cases "wstr = []")
  case True
  then show ?thesis by (simp add: WstrToUtf8Str_def c_str_def)
next
  case False
  have "0 \<notin> set (utf8_of_utf16 (c_str wstr))"
    by (rule utf8_of_utf16_nul_free) (rule c_str_nul_free)
  then have "c_str (utf8_of_utf16 (c_str wstr) @ [0]) = utf8_of_utf16 (c_str wstr)"
    by (simp add: c_str_snoc_nul c_str_id)
  with False show ?thesis
    by (simp add: WstrToUtf8Str_def WideCharToMultiByte_utf8_def Let_def)
qed

subsection \<open>Failures of the Windows launcher\<close>

lemma startup_calls:
  "set (snd (WstrToUtf8Str api wstr)) \<subseteq> {Call_WideCharToMultiByte (c_str wstr) n |n. True} \<and>
   distinct (snd (WstrToUtf8Str api wstr))"
  by (auto simp add: WstrToUtf8Str_def Let_def)

lemma bin_dir_neq_pydll: "bin_dir w \<noteq> pydll w"
  by (simp add: bin_dir_def pydll_def L_def)

lemma PATH_neq_PYTHONPATH: "L ''PATH'' \<noteq> L ''PYTHONPATH''"
  by (simp add: L_def)

lemma distinct_setup_calls: "envsize env \<noteq> 0 \<Longrightarrow> distinct (setup_calls w env)"
  by (simp add: setup_calls_def bin_dir_neq_pydll PATH_neq_PYTHONPATH)

lemma setup_calls_startup_disjoint:
  "set (setup_calls w env) \<inter> set (snd (startup w env)) = {}"
  using startup_calls [of "WideCharToMultiByte w" "wcmd w env"]
  by (auto simp add: setup_calls_def startup_def)

lemma distinct_take_setup_calls: "envsize env \<noteq> 0 \<Longrightarrow> distinct (take k (setup_calls w env))"
  by (rule distinct_take) (rule distinct_setup_calls)

lemma distinct_take4_setup_calls: "k \<le> 4 \<Longrightarrow> distinct (take k (setup_calls w env))"
proof -
  assume "k \<le> 4"
  have "distinct (take 4 (setup_calls w env))"
    by (simp add: setup_calls_def)
  then have "distinct (take k (take 4 (setup_calls w env)))"
    by (rule distinct_take)
  with \<open>k \<le> 4\<close> show ?thesis by (simp add: min_def)
qed

lemma notin_setup_calls:
  "Call_MessageBox msg \<notin> set (setup_calls w env)"
  "Call_PyRun_SimpleString cmd \<notin> set (setup_calls w env)"
  "Call_Py_Finalize \<notin> set (setup_calls w env)"
  by (simp_all add: setup_calls_def)

lemma MessageBox_notin_take: "Call_MessageBox msg \<notin> set (take k (setup_calls w env))"
  using notin_setup_calls(1) [of msg w env] by (auto dest: in_set_takeD)

lemma MessageBox_notin_startup: "Call_MessageBox msg \<notin> set (snd (startup w env))"
  using startup_calls [of "WideCharToMultiByte w" "wcmd w env"]
  by (auto simp add: startup_def)

text \<open>
  Claim C2. In the Windows launcher every setup failure (the executable path does not
  resolve, the file name cannot be stripped, \<^verbatim>\<open>bin\<close> is missing, \<^verbatim>\<open>bin\<close> is not a directory,
  \<^verbatim>\<open>PATH\<close> is not found, the allocation fails, \<^verbatim>\<open>python27.dll\<close> is missing, or the startup
  command ends in a Python error) shows a message box and then ends the process with exit
  code 1. The message box is the last call of the run and the only one, and no call is
  made twice: no step is retried and nothing is recovered.
\<close>

theorem main_win_failure_alert_exit:
  assumes "\<not> resolves w \<or> \<not> strips w \<or> \<not> bin_exists w \<or> \<not> bin_is_directory w \<or>
           \<not> PATH_found env \<or> \<not> allocates w env \<or> \<not> dll_exists w \<or>
           (converts w env \<and> python_error w env)"
  shows "fst (main_win w (initial env)) = Exit 1 \<and>
         (\<exists>msg. last (trace (snd (main_win w (initial env)))) = Call_MessageBox msg \<and>
                 Call_MessageBox msg \<notin> set (butlast (trace (snd (main_win w (initial env)))))) \<and>
         distinct (trace (snd (main_win w (initial env))))"
  using assms startup_calls [of "WideCharToMultiByte w" "wcmd w env"]
    setup_calls_startup_disjoint [of w env]
  by (auto simp add: main_win_unfold PATH_found_def distinct_take_setup_calls
      distinct_take4_setup_calls MessageBox_notin_take MessageBox_notin_startup
      notin_setup_calls distinct_setup_calls butlast_append startup_def
      python_error_def status_after_def calls_after_def
      dest: in_set_takeD)

subsection \<open>The sample runs; success and early exits\<close>

lemma sample_dir_nul_free: "0 \<notin> set sample_dir"
  by (simp add: sample_dir_def L_def)

lemma exe_dir_sample [simp]: "exe_dir sample_world = sample_dir"
  by (simp add: exe_dir_def sample_world_def c_str_id sample_dir_nul_free)

lemma exe_dir_variants [simp]:
  "exe_dir no_bin_world = sample_dir"
  "exe_dir python_error_world = sample_dir"
  "exe_dir (system_exit_world n) = sample_dir"
  by (simp_all add: exe_dir_def sample_world_def no_bin_world_def system_exit_world_def
      python_error_world_def c_str_id sample_dir_nul_free)

lemma bin_neq_dll: "L (CHR 0x5C # ''bin'') \<noteq> L (CHR 0x5C # ''python27.dll'')"
  by (simp add: L_def)

lemma envsize_sample [simp]: "envsize sample_environment = 11"
  by (simp add: envsize_def wgetenv_s_def sample_environment_def sample_PATH_def L_def)

lemma sample_checks:
  "resolves sample_world" "strips sample_world" "bin_exists sample_world"
  "bin_is_directory sample_world" "PATH_found sample_environment"
  "allocates sample_world sample_environment" "dll_exists sample_world"
  by (simp_all add: resolves_def strips_def bin_exists_def bin_is_directory_def PATH_found_def
      allocates_def dll_exists_def bin_dir_def pydll_def bin_neq_dll S_IFDIR_def)
     (simp_all add: sample_world_def)

lemma envsize_trailing_backslash [simp]: "envsize trailing_backslash_environment = 12"
  by (simp add: envsize_def wgetenv_s_def trailing_backslash_environment_def sample_PATH_def
      L_def)

lemma python_error_checks:
  "resolves python_error_world" "strips python_error_world" "bin_exists python_error_world"
  "bin_is_directory python_error_world"
  "allocates python_error_world sample_environment" "dll_exists python_error_world"
  "python_error python_error_world sample_environment"
  "PATH_found trailing_backslash_environment"
  "allocates python_error_world trailing_backslash_environment"
  "python_error python_error_world trailing_backslash_environment"
  by (simp_all add: resolves_def strips_def bin_exists_def bin_is_directory_def PATH_found_def
      allocates_def dll_exists_def bin_dir_def pydll_def bin_neq_dll S_IFDIR_def python_error_def)
     (simp_all add: sample_world_def python_error_world_def)

lemma system_exit_checks:
  "resolves (system_exit_world n)" "strips (system_exit_world n)"
  "bin_exists (system_exit_world n)" "bin_is_directory (system_exit_world n)"
  "allocates (system_exit_world n) sample_environment" "dll_exists (system_exit_world n)"
  "PyRun_SimpleString (system_exit_world n) cmd = Exited n"
  by (simp_all add: resolves_def strips_def bin_exists_def bin_is_directory_def
      allocates_def dll_exists_def bin_dir_def pydll_def bin_neq_dll S_IFDIR_def)
     (simp_all add: sample_world_def system_exit_world_def)

lemma converts_utf8: "WideCharToMultiByte w = WideCharToMultiByte_utf8 \<Longrightarrow> converts w env"
  by (simp add: converts_def startup_def WstrToUtf8Str_utf8)

lemma sample_conversion:
  "WideCharToMultiByte sample_world = WideCharToMultiByte_utf8"
  "WideCharToMultiByte python_error_world = WideCharToMultiByte_utf8"
  "WideCharToMultiByte (system_exit_world n) = WideCharToMultiByte_utf8"
  by (simp_all add: sample_world_def python_error_world_def system_exit_world_def)

lemma sample_converts:
  "converts sample_world env" "converts python_error_world env"
  "converts (system_exit_world n) env"
  by (rule converts_utf8, rule sample_conversion)+

lemma sample_python_runs: "python_runs sample_world sample_environment"
  by (simp add: python_runs_def sample_world_def)

lemma python_error_outcome:
  "python_error w env \<Longrightarrow> PyRun_SimpleString w (command w env) = Returned (- 1)"
  by (simp add: python_error_def)

lemma python_runs_outcome:
  "python_runs w env \<Longrightarrow> status_after (PyRun_SimpleString w (command w env)) = Exit 0"
  by (simp add: python_runs_def status_after_def split: py_outcome.splits)

theorem main_win_failure_alert_exit_witness:
  "(converts python_error_world sample_environment \<and>
    python_error python_error_world sample_environment) \<and>
   fst (main_win python_error_world (initial sample_environment)) = Exit 1 \<and>
   last (trace (snd (main_win python_error_world (initial sample_environment))))
     = Call_MessageBox (could_not_start ''.'' ''An internal Python error occured.'') \<and>
   distinct (trace (snd (main_win python_error_world (initial sample_environment))))"
proof -
  have h: "converts python_error_world sample_environment \<and>
    python_error python_error_world sample_environment"
    by (simp add: sample_converts python_error_checks)
  have l: "last (trace (snd (main_win python_error_world (initial sample_environment))))
     = Call_MessageBox (could_not_start ''.'' ''An internal Python error occured.'')"
    by (simp add: main_win_unfold sample_converts python_error_checks sample_checks
        python_error_outcome calls_after_def)
  from h l main_win_failure_alert_exit [of python_error_world sample_environment]
  show ?thesis by blast
qed

text \<open>
  Claim C5. When the executable path resolves, the file name is stripped, \<^verbatim>\<open>bin\<close> exists
  and is a directory, the \<^verbatim>\<open>PATH\<close> lookup and the allocation succeed, \<^verbatim>\<open>python27.dll\<close>
  exists, and the startup command is converted and runs without error, the Windows
  launcher exits with code 0.
\<close>

theorem main_win_exit_0:
  assumes "resolves w" and "strips w" and "bin_exists w" and "bin_is_directory w"
    and "PATH_found env" and "allocates w env" and "dll_exists w"
    and "converts w env" and "python_runs w env"
  shows "fst (main_win w (initial env)) = Exit 0"
  using assms by (simp add: main_win_unfold python_runs_outcome)

theorem main_win_exit_0_witness:
  "resolves sample_world \<and> strips sample_world \<and> bin_exists sample_world \<and>
   bin_is_directory sample_world \<and> PATH_found sample_environment \<and>
   allocates sample_world sample_environment \<and> dll_exists sample_world \<and>
   converts sample_world sample_environment \<and> python_runs sample_world sample_environment \<and>
   fst (main_win sample_world (initial sample_environment)) = Exit 0"
  using main_win_exit_0 [of sample_world sample_environment]
  by (simp add: sample_checks sample_converts sample_python_runs)

text \<open>
  Claim C8. When one of the checks before the first environment write fails (path
  resolution, stripping the file name, the existence of \<^verbatim>\<open>bin\<close>, \<^verbatim>\<open>bin\<close> being a directory,
  the \<^verbatim>\<open>PATH\<close> lookup, the allocation), the Windows launcher exits with code 1, the
  environment is the one it started with, no \<^verbatim>\<open>_wputenv_s\<close> call was made and the
  interpreter was not initialised.
\<close>

theorem main_win_early_exit_frame:
  assumes "\<not> (resolves w \<and> strips w \<and> bin_exists w \<and> bin_is_directory w \<and>
              PATH_found env \<and> allocates w env)"
  shows "fst (main_win w (initial env)) = Exit 1 \<and>
         environ (snd (main_win w (initial env))) = env \<and>
         interpreter (snd (main_win w (initial env))) = None \<and>
         (\<forall>e \<in> set (trace (snd (main_win w (initial env)))).
            e \<noteq> Call_Py_Initialize \<and> (\<forall>n v. e \<noteq> Call_wputenv_s n v))"
  using assms by (auto simp add: main_win_unfold setup_calls_def)

lemma no_bin_checks:
  "\<not> bin_exists no_bin_world"
  by (simp add: bin_exists_def no_bin_world_def)

theorem main_win_early_exit_frame_witness:
  "\<not> bin_exists no_bin_world \<and>
   fst (main_win no_bin_world (initial sample_environment)) = Exit 1 \<and>
   environ (snd (main_win no_bin_world (initial sample_environment))) = sample_environment \<and>
   interpreter (snd (main_win no_bin_world (initial sample_environment))) = None \<and>
   Call_Py_Initialize \<notin> set (trace (snd (main_win no_bin_world (initial sample_environment))))"
  using main_win_early_exit_frame [of no_bin_world sample_environment] no_bin_checks
  by blast

subsection \<open>The sequence of calls\<close>

lemma c_str_osx_cmd: "c_str osx_cmd = osx_cmd"
  by (simp add: osx_cmd_def c_str_def str_def)

lemma main_osx_unfold:
  "main_osx w (initial env) =
     (status_after (PyRun_SimpleString w osx_cmd),
      \<lparr>environ = env, interpreter = Some env,
       trace = [Call_Py_SetProgramName, Call_PyEval_InitThreads, Call_Py_Initialize,
                Call_PySys_SetArgv, Call_PyRun_SimpleString osx_cmd]
               @ calls_after
                   (Call_CFUserNotificationDisplayAlert
                      (could_not_start ''.'' ''An internal Python error occured.''))
                   (PyRun_SimpleString w osx_cmd)\<rparr>)"
  using c_str_osx_cmd
  by (simp add: main_osx_def Let_def osx_cmd_def initial_def call_def Py_Initialize_def
      CFUserNotificationDisplayAlert_def status_after_def calls_after_def
      split: py_outcome.split)





subsection \<open>The command handed to the interpreter\<close>

lemma commands_append: "commands (xs @ ys) = commands xs @ commands ys"
  by (induction xs rule: commands.induct) simp_all

lemma commands_none:
  "\<forall>e \<in> set es. \<forall>cmd. e \<noteq> Call_PyRun_SimpleString cmd \<Longrightarrow> commands es = []"
  by (induction es rule: commands.induct) simp_all

lemma commands_take_setup_calls: "commands (take k (setup_calls w env)) = []"
proof (rule commands_none)
  have "\<forall>e \<in> set (setup_calls w env). \<forall>cmd. e \<noteq> Call_PyRun_SimpleString cmd"
    by (simp add: setup_calls_def)
  then show "\<forall>e \<in> set (take k (setup_calls w env)). \<forall>cmd. e \<noteq> Call_PyRun_SimpleString cmd"
    by (blast dest: in_set_takeD)
qed

lemma commands_setup_calls: "commands (setup_calls w env) = []"
  using commands_take_setup_calls [of "length (setup_calls w env)" w env] by simp

lemma commands_startup: "commands (snd (startup w env)) = []"
  using startup_calls [of "WideCharToMultiByte w" "wcmd w env"]
  by (intro commands_none) (auto simp add: startup_def)

lemma commands_main_win:
  "commands (trace (snd (main_win w (initial env)))) =
     (if resolves w \<and> strips w \<and> bin_exists w \<and> bin_is_directory w \<and> PATH_found env \<and>
         allocates w env \<and> dll_exists w \<and> converts w env
      then [command w env] else [])"
  by (simp add: main_win_unfold commands_append commands_take_setup_calls commands_setup_calls
      commands_startup calls_after_def split: py_outcome.split)

lemma wcmd_nul_free: "0 \<notin> set (wcmd w env)"
  by (simp add: wcmd_def modified_path_nul_free pythonpath_nul_free) (simp add: L_def)

lemma command_utf8:
  assumes "WideCharToMultiByte w = WideCharToMultiByte_utf8"
  shows "command w env = utf8_of_utf16 (wcmd w env)"
proof -
  have "fst (startup w env) = Inr (utf8_of_utf16 (wcmd w env))"
    using assms by (simp add: startup_def WstrToUtf8Str_utf8 c_str_id wcmd_nul_free)
  moreover have "0 \<notin> set (utf8_of_utf16 (wcmd w env))"
    by (rule utf8_of_utf16_nul_free) (rule wcmd_nul_free)
  ultimately show ?thesis
    by (simp add: command_def c_str_id)
qed

lemma wcmd_trailing_backslash:
  "wcmd python_error_world trailing_backslash_environment =
     L (''import os;import sys;os.environ['PATH'] = r'' @ [CHR 0x27])
     @ L (''C:'' @ CHR 0x5C # ''app'' @ CHR 0x5C # ''bin;C:'' @ CHR 0x5C # ''Windows''
          @ [CHR 0x5C])
     @ L (CHR 0x27 # '';sys.path.insert(0, r'' @ [CHR 0x27])
     @ L (''C:'' @ CHR 0x5C # ''app'' @ CHR 0x5C # ''shared'')
     @ L (CHR 0x27 # '');import bookmarks; bookmarks.exec_();'')"
  by (simp add: wcmd_def modified_path_def bin_dir_def pythonpath_def previous_PATH_def
      trailing_backslash_environment_def)
     (simp add: sample_dir_def sample_PATH_def L_def c_str_def)

text \<open>
  Claim C6 on a run started with a \<^verbatim>\<open>PATH\<close> that ends in a backslash. The command the
  launcher hands to the interpreter is the text below: the old \<^verbatim>\<open>PATH\<close> is pasted unescaped
  between \<^verbatim>\<open>r'\<close> and \<^verbatim>\<open>'\<close>, its last backslash stands before the apostrophe meant to close
  the literal, and Python reads that apostrophe as part of the string. The text
  \<^verbatim>\<open>import bookmarks; bookmarks.exec_();\<close> is then not a statement of the command, which
  does not compile; \<^verbatim>\<open>PyRun_SimpleString\<close> returns -1 and the launcher exits with code 1.
\<close>

theorem main_win_trailing_backslash_command:
  "commands (trace (snd (main_win python_error_world (initial trailing_backslash_environment))))
     = [str (''import os;import sys;os.environ['PATH'] = r'' @ [CHR 0x27])
        @ str (''C:'' @ CHR 0x5C # ''app'' @ CHR 0x5C # ''bin;C:'' @ CHR 0x5C # ''Windows''
               @ [CHR 0x5C])
        @ str (CHR 0x27 # '';sys.path.insert(0, r'' @ [CHR 0x27])
        @ str (''C:'' @ CHR 0x5C # ''app'' @ CHR 0x5C # ''shared'')
        @ str (CHR 0x27 # '');import bookmarks; bookmarks.exec_();'')] \<and>
   fst (main_win python_error_world (initial trailing_backslash_environment)) = Exit 1"
proof -
  have u: "utf8_of_utf16 (wcmd python_error_world trailing_backslash_environment) =
      str (''import os;import sys;os.environ['PATH'] = r'' @ [CHR 0x27])
        @ str (''C:'' @ CHR 0x5C # ''app'' @ CHR 0x5C # ''bin;C:'' @ CHR 0x5C # ''Windows''
               @ [CHR 0x5C])
        @ str (CHR 0x27 # '';sys.path.insert(0, r'' @ [CHR 0x27])
        @ str (''C:'' @ CHR 0x5C # ''app'' @ CHR 0x5C # ''shared'')
        @ str (CHR 0x27 # '');import bookmarks; bookmarks.exec_();'')"
    unfolding wcmd_trailing_backslash
    by (simp add: L_def str_def utf8_code_point_def scalar_def high_surrogate_def
        low_surrogate_def)
  have c: "command python_error_world trailing_backslash_environment =
      utf8_of_utf16 (wcmd python_error_world trailing_backslash_environment)"
    by (rule command_utf8) (rule sample_conversion)
  have all: "resolves python_error_world \<and> strips python_error_world \<and>
      bin_exists python_error_world \<and> bin_is_directory python_error_world \<and>
      PATH_found trailing_backslash_environment \<and>
      allocates python_error_world trailing_backslash_environment \<and>
      dll_exists python_error_world \<and>
      converts python_error_world trailing_backslash_environment"
    by (simp add: python_error_checks sample_converts)
  have "commands (trace (snd (main_win python_error_world
          (initial trailing_backslash_environment))))
      = [command python_error_world trailing_backslash_environment]"
    using all by (simp only: commands_main_win simp_thms if_True)
  moreover have "fst (main_win python_error_world (initial trailing_backslash_environment))
      = Exit 1"
    using all python_error_outcome [OF python_error_checks(10)]
    by (simp add: main_win_unfold status_after_def)
  ultimately show ?thesis
    by (simp only: c u simp_thms)
qed

subsection \<open>The conversion function, the environment at start-up, and the ways a run ends\<close>

text \<open>
  Claim C10, as stated, fails on a wide string that holds a NUL: both conversion calls
  succeed on \<^verbatim>\<open>L"a\0b"\<close>, the function returns \<^verbatim>\<open>"a"\<close>, and the UTF-8 encoding of the
  three code units is three bytes.
\<close>

theorem WstrToUtf8Str_stops_at_NUL:
  "WstrToUtf8Str WideCharToMultiByte_utf8 [0x61, 0, 0x62] =
     (Inr [0x61], [Call_WideCharToMultiByte [0x61] 0, Call_WideCharToMultiByte [0x61] 2]) \<and>
   fst (WideCharToMultiByte_utf8 [0x61] 0) = 2 \<and>
   fst (WideCharToMultiByte_utf8 [0x61] 2) = 2 \<and>
   utf8_of_utf16 [0x61, 0, 0x62] = [0x61, 0, 0x62] \<and>
   fst (WstrToUtf8Str WideCharToMultiByte_utf8 [0x61, 0, 0x62])
     \<noteq> Inr (utf8_of_utf16 [0x61, 0, 0x62])"
  by (simp add: WstrToUtf8Str_def WideCharToMultiByte_utf8_def c_str_def Let_def
      utf8_code_point_def scalar_def high_surrogate_def low_surrogate_def)

text \<open>
  Claim C10, amended. \<^verbatim>\<open>WstrToUtf8Str\<close> returns the empty string for the empty wide string
  and makes no conversion call then; it throws exactly when the input is not empty, the
  sizing call returns a positive size and the converting call returns 0; when the
  converting call succeeds it returns the bytes written up to the first NUL; and with the
  documented conversion it returns the UTF-8 encoding of the input up to its first NUL
  code unit, which is the whole input when the input holds no NUL.
\<close>

theorem WstrToUtf8Str_result:
  "WstrToUtf8Str api [] = (Inr [], []) \<and>
   (fst (WstrToUtf8Str api wstr) = Inl e \<longleftrightarrow>
      wstr \<noteq> [] \<and> 0 < fst (api (c_str wstr) 0) \<and>
      fst (api (c_str wstr) (nat (fst (api (c_str wstr) 0)))) = 0) \<and>
   (wstr \<noteq> [] \<and> 0 < fst (api (c_str wstr) 0) \<and>
    fst (api (c_str wstr) (nat (fst (api (c_str wstr) 0)))) \<noteq> 0 \<longrightarrow>
      fst (WstrToUtf8Str api wstr)
        = Inr (c_str (snd (api (c_str wstr) (nat (fst (api (c_str wstr) 0))))))) \<and>
   fst (WstrToUtf8Str WideCharToMultiByte_utf8 wstr) = Inr (utf8_of_utf16 (c_str wstr)) \<and>
   (0 \<notin> set wstr \<longrightarrow>
      fst (WstrToUtf8Str WideCharToMultiByte_utf8 wstr) = Inr (utf8_of_utf16 wstr))"
proof -
  have a: "WstrToUtf8Str api [] = (Inr [], [])"
    by (simp add: WstrToUtf8Str_def)
  have b: "fst (WstrToUtf8Str api wstr) = Inl e \<longleftrightarrow>
      wstr \<noteq> [] \<and> 0 < fst (api (c_str wstr) 0) \<and>
      fst (api (c_str wstr) (nat (fst (api (c_str wstr) 0)))) = 0"
    by (cases e) (simp add: WstrToUtf8Str_def Let_def)
  have c: "wstr \<noteq> [] \<and> 0 < fst (api (c_str wstr) 0) \<and>
    fst (api (c_str wstr) (nat (fst (api (c_str wstr) 0)))) \<noteq> 0 \<longrightarrow>
      fst (WstrToUtf8Str api wstr)
        = Inr (c_str (snd (api (c_str wstr) (nat (fst (api (c_str wstr) 0))))))"
    by (simp add: WstrToUtf8Str_def Let_def)
  have d: "0 \<notin> set wstr \<longrightarrow>
      fst (WstrToUtf8Str WideCharToMultiByte_utf8 wstr) = Inr (utf8_of_utf16 wstr)"
    by (simp add: WstrToUtf8Str_utf8 c_str_id)
  from a b c d WstrToUtf8Str_utf8 [of wstr] show ?thesis
    by (simp only: simp_thms)
qed

theorem WstrToUtf8Str_result_witness:
  "fst (WstrToUtf8Str failing_conversion [0x61]) = Inl Runtime_error \<and>
   0 < fst (failing_conversion (c_str [0x61]) 0) \<and>
   (0 :: wchar_t) \<notin> set [0x61, 0xE9] \<and>
   fst (WideCharToMultiByte_utf8 (c_str [0x61, 0xE9]) 0) = 4 \<and>
   fst (WideCharToMultiByte_utf8 (c_str [0x61, 0xE9]) 4) \<noteq> 0 \<and>
   fst (WstrToUtf8Str WideCharToMultiByte_utf8 [0x61, 0xE9]) = Inr [0x61, 0xC3, 0xA9]"
proof -
  have f: "[0x61 :: wchar_t] \<noteq> [] \<and> 0 < fst (failing_conversion (c_str [0x61]) 0) \<and>
      fst (failing_conversion (c_str [0x61])
             (nat (fst (failing_conversion (c_str [0x61]) 0)))) = 0"
    by (simp add: failing_conversion_def c_str_def)
  have n: "(0 :: wchar_t) \<notin> set [0x61, 0xE9]"
    by simp
  have s: "fst (WideCharToMultiByte_utf8 (c_str [0x61, 0xE9]) 0) = 4 \<and>
      fst (WideCharToMultiByte_utf8 (c_str [0x61, 0xE9]) 4) \<noteq> 0"
    by (simp add: WideCharToMultiByte_utf8_def c_str_def utf8_code_point_def scalar_def
        high_surrogate_def low_surrogate_def Let_def)
  have u: "utf8_of_utf16 [0x61, 0xE9] = [0x61, 0xC3, 0xA9]"
    by (simp add: utf8_code_point_def scalar_def high_surrogate_def low_surrogate_def)
  from f WstrToUtf8Str_result [of failing_conversion "[0x61]" Runtime_error]
  have r1: "fst (WstrToUtf8Str failing_conversion [0x61]) = Inl Runtime_error"
    by blast
  from n WstrToUtf8Str_result [of WideCharToMultiByte_utf8 "[0x61, 0xE9]" Runtime_error]
  have "fst (WstrToUtf8Str WideCharToMultiByte_utf8 [0x61, 0xE9])
      = Inr (utf8_of_utf16 [0x61, 0xE9])"
    by blast
  with u have r2: "fst (WstrToUtf8Str WideCharToMultiByte_utf8 [0x61, 0xE9])
      = Inr [0x61, 0xC3, 0xA9]"
    by (simp only:)
  from r1 r2 f n s show ?thesis
    by blast
qed

lemma written_sample:
  "written sample_world sample_environment (L ''PATH'') = Some sample_PATH"
  "written sample_world sample_environment (L ''PYTHONPATH'') = None"
  "written sample_world sample_environment
     (sample_dir @ L (CHR 0x5C # ''bin'') @ L '';'' @ sample_PATH) = Some (L ''PATH'')"
  "written sample_world sample_environment
     (sample_dir @ L (CHR 0x5C # ''shared'')) = Some (L ''PYTHONPATH'')"
  by (simp_all add: written_def modified_path_def pythonpath_def bin_dir_def previous_PATH_def
      sample_environment_def)
     (simp_all add: sample_dir_def sample_PATH_def L_def c_str_def)

text \<open>
  Claim C1 on the sample run. The claim says that the interpreter starts under a \<^verbatim>\<open>PATH\<close>
  equal to \<^verbatim>\<open>C:\app\bin;C:\Windows\<close> and a \<^verbatim>\<open>PYTHONPATH\<close> equal to \<^verbatim>\<open>C:\app\shared\<close>.
  The launcher passes the value where \<^verbatim>\<open>_wputenv_s\<close> takes the name: the interpreter
  starts with \<^verbatim>\<open>PATH\<close> still \<^verbatim>\<open>C:\Windows\<close>, with no \<^verbatim>\<open>PYTHONPATH\<close>, and with two variables
  named by the paths.
\<close>

theorem main_win_sample_environment_at_start:
  "interpreter (snd (main_win sample_world (initial sample_environment)))
     = Some (written sample_world sample_environment) \<and>
   written sample_world sample_environment (L ''PATH'') = Some sample_PATH \<and>
   written sample_world sample_environment (L ''PYTHONPATH'') = None \<and>
   written sample_world sample_environment
     (sample_dir @ L (CHR 0x5C # ''bin'') @ L '';'' @ sample_PATH) = Some (L ''PATH'') \<and>
   written sample_world sample_environment
     (sample_dir @ L (CHR 0x5C # ''shared'')) = Some (L ''PYTHONPATH'')"
  by (simp add: main_win_unfold sample_checks sample_converts written_sample)



text \<open>
  Claim C3, as stated, fails on a run whose Python code raises \<^verbatim>\<open>SystemExit\<close>: with
  \<^verbatim>\<open>sys.exit(3)\<close> in the application, every check of the Windows launcher passing, the
  process ends inside \<^verbatim>\<open>PyRun_SimpleString\<close> with exit code 3.
\<close>

theorem main_win_system_exit_status:
  "fst (main_win (system_exit_world 3) (initial sample_environment)) = Exit 3"
  by (simp add: main_win_unfold system_exit_checks sample_checks sample_converts
      status_after_def)

text \<open>
  Claim C3, amended. With the documented UTF-8 conversion, a run of the Windows launcher
  ends with exit code 1 when one of its checks fails; when all pass, and on every run of
  the macOS launcher, the run ends with exit code 0 if \<^verbatim>\<open>PyRun_SimpleString\<close> returns a value
  other than -1, with exit code 1 if it returns -1, and with the code of the exit if the
  Python code raises \<^verbatim>\<open>SystemExit\<close>. So every run in which the call returns ends with exit
  code 0 or 1, and exit code 0 is given by the launcher exactly when the call returned a
  value other than -1.
\<close>

theorem launcher_exit_status:
  "(WideCharToMultiByte w = WideCharToMultiByte_utf8 \<longrightarrow>
      fst (main_win w (initial env)) =
        (if resolves w \<and> strips w \<and> bin_exists w \<and> bin_is_directory w \<and> PATH_found env \<and>
            allocates w env \<and> dll_exists w
         then status_after (PyRun_SimpleString w (command w env)) else Exit 1)) \<and>
   fst (main_osx w (initial env)) = status_after (PyRun_SimpleString w osx_cmd) \<and>
   status_after (Returned res) = (if res = - 1 then Exit 1 else Exit 0) \<and>
   status_after (Exited n) = Exit n"
  using converts_utf8 [of w env]
  by (auto simp add: main_win_unfold main_osx_unfold status_after_def)

theorem launcher_exit_status_witness:
  "WideCharToMultiByte sample_world = WideCharToMultiByte_utf8 \<and>
   fst (main_win sample_world (initial sample_environment)) = Exit 0 \<and>
   fst (main_win python_error_world (initial sample_environment)) = Exit 1 \<and>
   fst (main_osx (system_exit_world 0) (initial sample_environment)) = Exit 0"
proof -
  have r: "PyRun_SimpleString sample_world (command sample_world sample_environment)
      = Returned 0"
    by (simp add: sample_world_def)
  from r launcher_exit_status [of sample_world sample_environment]
    launcher_exit_status [of python_error_world sample_environment]
    launcher_exit_status [of "system_exit_world 0" sample_environment]
  show ?thesis
    by (simp add: sample_conversion sample_checks python_error_checks python_error_outcome
        system_exit_checks status_after_def)
qed




end
